theory Spec2Isabelle
  imports Complex_Main "HOL-Library.Option_ord"
begin

section \<open>Python values shared by the harvesters\<close>

text \<open>
  Exceptions of the Python source are values: a function that can raise returns
  \<open>error + 'a\<close>, with \<open>Inl\<close> for the exception.
\<close>

datatype error =
    KeyError string
  | ValueError
  | TypeError
  | AttributeError
  | IndexError
  | UnboundLocalError string

text \<open>Sequencing of two steps that may raise: the second runs on the first's result.\<close>

definition and_then :: "error + 'a \<Rightarrow> ('a \<Rightarrow> error + 'b) \<Rightarrow> error + 'b" where
  "and_then r f = (case r of Inl e \<Rightarrow> Inl e | Inr x \<Rightarrow> f x)"

section \<open>Resources and their reconciliation (lib/plan4all\_base.py)\<close>

text \<open>
  A resource dictionary. The keys \<open>resource_type\<close> and \<open>order\<close> are read with
  \<open>dict.get\<close> on previously persisted resources, so they are optional: \<open>None\<close>
  is a key that is absent (or holds Python's None).
\<close>

record resource =
  name :: string
  description :: string
  url :: string
  format :: string
  mimetype :: string
  resource_type :: "string option"
  order :: "int option"

text \<open>
  The part of the parsed item that the resource builders read with \<open>item.get\<close>.
\<close>

record links =
  geojsonLink :: "string option"
  shapefileLink :: "string option"
  thumbnail :: "string option"

text \<open>Python truthiness of \<open>item.get(key)\<close> for a string value and of an order.\<close>

definition truthy_str :: "string option \<Rightarrow> bool" where
  "truthy_str v = (case v of None \<Rightarrow> False | Some s \<Rightarrow> s \<noteq> [])"

definition truthy_int :: "int option \<Rightarrow> bool" where
  "truthy_int v = (case v of None \<Rightarrow> False | Some n \<Rightarrow> n \<noteq> 0)"

definition make_geojson_resource :: "'a links_scheme \<Rightarrow> resource option" where
  "make_geojson_resource item =
     (if truthy_str (geojsonLink item) then
        Some \<lparr> name = ''GeoJSON Download from Plan4All'',
               description = ''Download the geojson file from Plan4All.'',
               url = the (geojsonLink item),
               format = ''JSON'',
               mimetype = ''application/json'',
               resource_type = Some ''plan4all_geojson'',
               order = Some 1 \<rparr>
      else None)"

definition make_shapefile_resource :: "'a links_scheme \<Rightarrow> resource option" where
  "make_shapefile_resource item =
     (if truthy_str (shapefileLink item) then
        Some \<lparr> name = ''ShapeFile Download from Plan4All'',
               description = ''Download ESRI shapefile as zip from Plan4All.'',
               url = the (shapefileLink item),
               format = ''ZIP'',
               mimetype = ''application/zip'',
               resource_type = Some ''plan4all_shapefile'',
               order = Some 2 \<rparr>
      else None)"

definition make_thumbnail_resource :: "'a links_scheme \<Rightarrow> resource option" where
  "make_thumbnail_resource item =
     (if truthy_str (thumbnail item) then
        Some \<lparr> name = ''Thumbnail Download'',
               description = ''Download a PNG quicklook.'',
               url = the (thumbnail item),
               format = ''PNG'',
               mimetype = ''image/png'',
               resource_type = Some ''thumbnail'',
               order = Some 3 \<rparr>
      else None)"

text \<open>
  \<open>{x['resource_type'] for x in new_resources}\<close>: subscripting raises KeyError on a
  candidate without the key.
\<close>

fun resource_types :: "resource list \<Rightarrow> error + string list" where
  "resource_types [] = Inr []"
| "resource_types (x # xs) =
     (case resource_type x of
        None \<Rightarrow> Inl (KeyError ''resource_type'')
      | Some t \<Rightarrow> (case resource_types xs of Inl e \<Rightarrow> Inl e | Inr ts \<Rightarrow> Inr (t # ts)))"

text \<open>
  The loop over \<open>old_resources\<close>, with the list \<open>resources\<close> it appends to:
  \<open>old_type not in new_resource_types and order\<close>. An old resource without a
  \<open>resource_type\<close> has \<open>old_type = None\<close>, which is in no set of strings.
\<close>

fun retain_old :: "string list \<Rightarrow> resource list \<Rightarrow> resource list \<Rightarrow> resource list" where
  "retain_old new_resource_types [] resources = resources"
| "retain_old new_resource_types (old # olds) resources =
     (let old_type = resource_type old; ord = order old in
      if (case old_type of None \<Rightarrow> True | Some t \<Rightarrow> t \<notin> set new_resource_types)
         \<and> truthy_int ord
      then retain_old new_resource_types olds (resources @ [old])
      else retain_old new_resource_types olds resources)"

text \<open>
  \<open>resources.sort(key=lambda x: x['order'])\<close>: a stable sort; the key raises KeyError
  on a resource without \<open>order\<close>.
\<close>

definition sort_by_order :: "resource list \<Rightarrow> error + resource list" where
  "sort_by_order resources =
     (if list_all (\<lambda>x. order x \<noteq> None) resources
      then Inr (sort_key (\<lambda>x. the (order x)) resources)
      else Inl (KeyError ''order''))"

text \<open>
  Lines 244 to 259 of \<open>_get_resources\<close>: the merge of the old resources (the empty
  list when the package has none: \<open>not old_resources\<close> holds for None and for [])
  with the new candidates.
\<close>

definition reconcile :: "resource list \<Rightarrow> resource list \<Rightarrow> error + resource list" where
  "reconcile old_resources new_resources =
     (if old_resources = [] then Inr new_resources
      else
        (case resource_types new_resources of
           Inl e \<Rightarrow> Inl e
         | Inr new_resource_types \<Rightarrow>
             sort_by_order (retain_old new_resource_types old_resources [] @ new_resources)))"

text \<open>
  \<open>[x for x in [shapefile, geojson, thumbnail] if x]\<close>.
\<close>

definition derive_new_resources :: "'a links_scheme \<Rightarrow> resource list" where
  "derive_new_resources parsed_content =
     List.map_filter (\<lambda>x. x)
       [make_shapefile_resource parsed_content,
        make_geojson_resource parsed_content,
        make_thumbnail_resource parsed_content]"

text \<open>
  \<open>_get_resources\<close>: \<open>package\<close> is \<open>self.obj.package\<close> given by its resources, None
  when the harvest object has no package yet.
\<close>

definition get_resources :: "resource list option \<Rightarrow> 'a links_scheme \<Rightarrow> error + resource list" where
  "get_resources package parsed_content =
     (let old_resources = (case package of None \<Rightarrow> [] | Some rs \<Rightarrow> rs)
      in reconcile old_resources (derive_new_resources parsed_content))"

section \<open>The OLU normalizer (lib/plan4all\_base.py)\<close>

subsection \<open>The parsed document\<close>

text \<open>
  The tree that \<open>BeautifulSoup(content, 'lxml')\<close> returns: a tag with its name and
  children, or a string. The functions below are the four accessors the normalizer
  uses: \<open>findChildren()\<close> (every descendant tag, in document order), \<open>.text\<close>,
  \<open>find(name)\<close> and \<open>find_all({name})\<close>.
\<close>

datatype soup = Tag string "soup list" | NavigableString string

fun findChildren :: "soup \<Rightarrow> soup list" and findChildren_list :: "soup list \<Rightarrow> soup list" where
  "findChildren (Tag n cs) = findChildren_list cs"
| "findChildren (NavigableString s) = []"
| "findChildren_list [] = []"
| "findChildren_list (c # cs) =
     (case c of Tag n ds \<Rightarrow> [c] | NavigableString s \<Rightarrow> [])
     @ findChildren c @ findChildren_list cs"

fun get_text :: "soup \<Rightarrow> string" and get_text_list :: "soup list \<Rightarrow> string" where
  "get_text (Tag n cs) = get_text_list cs"
| "get_text (NavigableString s) = s"
| "get_text_list [] = []"
| "get_text_list (c # cs) = get_text c @ get_text_list cs"

fun tag_name :: "soup \<Rightarrow> string" where
  "tag_name (Tag n cs) = n"
| "tag_name (NavigableString s) = []"

definition find_all :: "string \<Rightarrow> soup \<Rightarrow> soup list" where
  "find_all n node = filter (\<lambda>t. tag_name t = n) (findChildren node)"

definition find_tag :: "string \<Rightarrow> soup \<Rightarrow> soup option" where
  "find_tag n node = (case find_all n node of [] \<Rightarrow> None | t # ts \<Rightarrow> Some t)"

subsection \<open>Strings\<close>

text \<open>
  \<open>str.lower\<close> on ASCII letters, \<open>str.replace\<close> of one character by another,
  \<open>startswith\<close>, \<open>endswith\<close> and the substring test \<open>sub in s\<close>.
\<close>

definition lower_char :: "char \<Rightarrow> char" where
  "lower_char c =
     (let n = (of_char c :: nat) in if 65 \<le> n \<and> n \<le> 90 then char_of (n + 32) else c)"

definition lower :: "string \<Rightarrow> string" where
  "lower s = map lower_char s"

definition replace_char :: "char \<Rightarrow> char \<Rightarrow> string \<Rightarrow> string" where
  "replace_char a b s = map (\<lambda>c. if c = a then b else c) s"

definition startswith :: "string \<Rightarrow> string \<Rightarrow> bool" where
  "startswith s p = (take (length p) s = p)"

definition endswith :: "string \<Rightarrow> string \<Rightarrow> bool" where
  "endswith s p = (length p \<le> length s \<and> drop (length s - length p) s = p)"

fun contains :: "string \<Rightarrow> string \<Rightarrow> bool" where
  "contains sub [] = (sub = [])"
| "contains sub (c # cs) = (startswith (c # cs) sub \<or> contains sub cs)"

subsection \<open>The item dictionary\<close>

text \<open>
  \<open>spatial_dict\<close>: the four bounding values, None until an element sets one.
\<close>

record spatial_dict =
  gmd_westboundlongitude :: "string option"
  gmd_eastboundlongitude :: "string option"
  gmd_southboundlatitude :: "string option"
  gmd_northboundlatitude :: "string option"

text \<open>
  The value under the key \<open>spatial\<close>: the dictionary of bounds while the names are
  normalized, then the GeoJSON polygon. The polygon is kept as its coordinates (a list
  of rings of points); the source renders it into the text
  \<open>{"type": "Polygon", "coordinates": [...]}\<close> with a template. \<open>'f\<close> is Python's float.
\<close>

datatype 'f spatial_value = Bounds spatial_dict | Polygon "('f \<times> 'f) list list"

text \<open>
  The item: one optional field for each key the normalizer may set. The keys
  \<open>identifier\<close>, \<open>notes\<close> and \<open>name\<close> are the fields \<open>item_identifier\<close>,
  \<open>item_notes\<close> and \<open>item_name\<close>.
\<close>

record 'f item = links +
  spatial :: "'f spatial_value option"
  StartTime :: "string option"
  StopTime :: "string option"
  item_identifier :: "string option"
  title :: "string option"
  item_notes :: "string option"
  parent_identifier :: "string option"
  Filename :: "string option"
  item_name :: "string option"
  collection_name :: "string option"
  collection_description :: "string option"
  collection_id :: "string option"
  tags :: "string list option"

subsection \<open>\<open>_normalize_names\<close>\<close>

definition normalized_names :: "(string \<times> string) list" where
  "normalized_names =
     [(''gmd:datestamp'', ''StartTime''),
      (''gmd:westboundlongitude'', ''spatial''),
      (''gmd:eastboundlongitude'', ''spatial''),
      (''gmd:southboundlatitude'', ''spatial''),
      (''gmd:northboundlatitude'', ''spatial''),
      (''gmd:fileidentifier'', ''identifier''),
      (''gmd:title'', ''title''),
      (''gmd:abstract'', ''notes''),
      (''gmd:parentidentifier'', ''parent_identifier'')]"

text \<open>\<open>item['spatial'][name] = text\<close>, for the four names mapped to \<open>spatial\<close>.\<close>

definition set_bound :: "string \<Rightarrow> string \<Rightarrow> 'f spatial_value option \<Rightarrow> 'f spatial_value option" where
  "set_bound n text sp =
     (case sp of
        Some (Bounds b) \<Rightarrow>
          Some (Bounds
            (if n = ''gmd:westboundlongitude'' then b\<lparr>gmd_westboundlongitude := Some text\<rparr>
             else if n = ''gmd:eastboundlongitude'' then b\<lparr>gmd_eastboundlongitude := Some text\<rparr>
             else if n = ''gmd:southboundlatitude'' then b\<lparr>gmd_southboundlatitude := Some text\<rparr>
             else b\<lparr>gmd_northboundlatitude := Some text\<rparr>))
      | other \<Rightarrow> other)"

text \<open>\<open>item[key] = value\<close>, for the string keys of the table.\<close>

definition set_key :: "string \<Rightarrow> string \<Rightarrow> 'f item \<Rightarrow> 'f item" where
  "set_key key v item =
     (if key = ''StartTime'' then item\<lparr>StartTime := Some v\<rparr>
      else if key = ''identifier'' then item\<lparr>item_identifier := Some v\<rparr>
      else if key = ''title'' then item\<lparr>title := Some v\<rparr>
      else if key = ''notes'' then item\<lparr>item_notes := Some v\<rparr>
      else item\<lparr>parent_identifier := Some v\<rparr>)"

text \<open>The body of the loop over \<open>item_node.findChildren()\<close>.\<close>

definition normalize_step :: "soup \<Rightarrow> 'f item \<Rightarrow> 'f item" where
  "normalize_step subitem_node item =
     (case map_of normalized_names (tag_name subitem_node) of
        None \<Rightarrow> item
      | Some key \<Rightarrow>
          if key = ''spatial'' then
            item\<lparr>spatial := set_bound (tag_name subitem_node) (get_text subitem_node) (spatial item)\<rparr>
          else if key \<in> set [''identifier'', ''notes'', ''title''] then
            set_key key (get_text subitem_node) item
          else set_key key (lower (get_text subitem_node)) item)"

definition empty_item :: "'f item" where
  "empty_item =
     \<lparr> geojsonLink = None, shapefileLink = None, thumbnail = None,
       spatial = None, StartTime = None, StopTime = None, item_identifier = None,
       title = None, item_notes = None, parent_identifier = None, Filename = None,
       item_name = None, collection_name = None, collection_description = None,
       collection_id = None, tags = None \<rparr>"

text \<open>
  The loop over the four bounds that deletes \<open>item['spatial']\<close> at the first None.
\<close>

definition drop_partial_spatial :: "'f item \<Rightarrow> 'f item" where
  "drop_partial_spatial item =
     (case spatial item of
        Some (Bounds b) \<Rightarrow>
          if gmd_westboundlongitude b = None \<or> gmd_eastboundlongitude b = None
             \<or> gmd_southboundlatitude b = None \<or> gmd_northboundlatitude b = None
          then item\<lparr>spatial := None\<rparr> else item
      | other \<Rightarrow> item)"

text \<open>
  \<open>if ('StartTime' in item) and ('StopTime' not in item)\<close>, with the suffixes added
  when the start does not end with \<open>Z\<close>.
\<close>

definition synthesize_times :: "'f item \<Rightarrow> 'f item" where
  "synthesize_times item =
     (case StartTime item of
        Some start \<Rightarrow>
          if StopTime item = None then
            (if \<not> endswith start ''Z''
             then item\<lparr>StartTime := Some (start @ ''T00:00:00.000Z''),
                       StopTime := Some (start @ ''T23:59:59.999Z'')\<rparr>
             else item\<lparr>StopTime := Some start\<rparr>)
          else item
      | None \<Rightarrow> item)"

definition normalize_names :: "soup \<Rightarrow> 'f item" where
  "normalize_names item_node =
     (let spatial_dict = \<lparr> gmd_westboundlongitude = None, gmd_eastboundlongitude = None,
                            gmd_southboundlatitude = None, gmd_northboundlatitude = None \<rparr>;
          item = empty_item\<lparr>spatial := Some (Bounds spatial_dict)\<rparr>;
          item = fold normalize_step (findChildren item_node) item;
          item = drop_partial_spatial item
      in synthesize_times item)"

subsection \<open>\<open>_add_collection\<close> and \<open>_get_tags_for_dataset\<close>\<close>

text \<open>Both read \<open>item['identifier']\<close>, which raises KeyError when the key is absent.\<close>

definition add_collection :: "'f item \<Rightarrow> error + 'f item" where
  "add_collection item =
     (case item_identifier item of
        None \<Rightarrow> Inl (KeyError ''identifier'')
      | Some ident \<Rightarrow>
          if startswith (lower ident) ''olu'' then
            Inr (item\<lparr>collection_name := Some ''Open Land Use Map'',
                      collection_description := Some ''The main idea is to put Open Land Use dataset and also its metadata (from micka.lesprojekt.cz) in RDF format into Virtuoso and explore SPARQL queries that would combine data with metadata. For instance: Show me the datasets (municipalities) where more than 50% of the area is covered by residential areas and data were collected not later than 5 years ago? This query combines some metadata (such as year of data collection and municipality which data covers) with data itself  (object features with residential land use). For automatization of such queries it is necessary to have both data and metadata available for querying and interconnected. In ideal case the output will be endpoint where it will be possible to query both OLU data and metadata, some model queries and possibly some visualization of query results.'',
                      collection_id := Some ''OPEN_LAND_USE_MAP''\<rparr>)
          else Inr item)"

definition get_tags_for_dataset :: "'f item \<Rightarrow> error + string list" where
  "get_tags_for_dataset item =
     (case item_identifier item of
        None \<Rightarrow> Inl (KeyError ''identifier'')
      | Some ident \<Rightarrow>
          if startswith (lower ident) ''olu'' then
            Inr [''OLU'', ''open land use'', ''LULC'', ''land use'', ''land cover'', ''agriculture'']
          else Inr [])"

subsection \<open>\<open>_parse_content\<close>\<close>

text \<open>
  \<open>float(x)\<close> on a bound. The builtin is a parameter \<open>float\<close> of the model: it gives
  the number a text denotes, or None where Python raises ValueError. On None (no text)
  Python raises TypeError.
\<close>

definition float_of :: "(string \<Rightarrow> 'f option) \<Rightarrow> string option \<Rightarrow> error + 'f" where
  "float_of float v =
     (case v of
        None \<Rightarrow> Inl TypeError
      | Some text \<Rightarrow> (case float text of None \<Rightarrow> Inl ValueError | Some x \<Rightarrow> Inr x))"

text \<open>
  Lines 115 to 121: the four corners, each a pair of floats converted in the order the
  source converts them, and the ring \<open>[NW, NE, SE, SW, NW]\<close> placed in the
  coordinates of the polygon.
\<close>

definition to_polygon :: "(string \<Rightarrow> 'f option) \<Rightarrow> spatial_dict \<Rightarrow> error + 'f spatial_value" where
  "to_polygon float spatial_data =
     and_then (float_of float (gmd_westboundlongitude spatial_data)) (\<lambda>w1.
     and_then (float_of float (gmd_northboundlatitude spatial_data)) (\<lambda>n1.
     and_then (float_of float (gmd_eastboundlongitude spatial_data)) (\<lambda>e2.
     and_then (float_of float (gmd_northboundlatitude spatial_data)) (\<lambda>n2.
     and_then (float_of float (gmd_eastboundlongitude spatial_data)) (\<lambda>e3.
     and_then (float_of float (gmd_southboundlatitude spatial_data)) (\<lambda>s3.
     and_then (float_of float (gmd_westboundlongitude spatial_data)) (\<lambda>w4.
     and_then (float_of float (gmd_southboundlatitude spatial_data)) (\<lambda>s4.
       (let coords_NW = (w1, n1); coords_NE = (e2, n2);
            coords_SE = (e3, s3); coords_SW = (w4, s4);
            coords_list = [coords_NW, coords_NE, coords_SE, coords_SW, coords_NW]
        in Inr (Polygon [coords_list]))))))))))"

text \<open>
  Lines 112 to 122: \<open>item.pop('spatial', None)\<close>, and the conversion when a spatial
  dictionary was there.
\<close>

definition convert_spatial :: "(string \<Rightarrow> 'f option) \<Rightarrow> 'f item \<Rightarrow> error + 'f item" where
  "convert_spatial float item =
     (let spatial_data = spatial item; item = item\<lparr>spatial := None\<rparr> in
      case spatial_data of
        Some (Bounds b) \<Rightarrow>
          and_then (to_polygon float b) (\<lambda>geojson. Inr (item\<lparr>spatial := Some geojson\<rparr>))
      | other \<Rightarrow> Inr item)"

text \<open>Lines 124 to 131: the identifier, the file name, the parent and the name.\<close>

definition set_identifiers :: "'f item \<Rightarrow> error + 'f item" where
  "set_identifiers item =
     (let item = (case item_identifier item of
                    Some ident \<Rightarrow>
                      item\<lparr>item_identifier := Some (replace_char CHR ''.'' CHR ''_'' ident),
                           Filename := Some (lower (replace_char CHR ''.'' CHR ''_'' ident))\<rparr>
                  | None \<Rightarrow> item);
          item = (case parent_identifier item of
                    Some parent \<Rightarrow>
                      item\<lparr>parent_identifier := Some (replace_char CHR ''.'' CHR ''_'' parent)\<rparr>
                  | None \<Rightarrow> item)
      in case item_identifier item of
           None \<Rightarrow> Inl (KeyError ''identifier'')
         | Some ident \<Rightarrow> Inr (item\<lparr>item_name := Some (lower ident)\<rparr>))"

text \<open>
  Lines 134 to 137: the quick look. \<open>find\<close> returns None for a missing element, and
  \<open>.text\<close> on None raises AttributeError.
\<close>

definition set_thumbnail :: "soup \<Rightarrow> 'f item \<Rightarrow> error + 'f item" where
  "set_thumbnail soup item =
     (case find_tag ''gmd:md_browsegraphic'' soup of
        None \<Rightarrow> Inr item
      | Some quick_look \<Rightarrow>
          (case find_tag ''gmd:filename'' quick_look of
             None \<Rightarrow> Inl AttributeError
           | Some f \<Rightarrow> Inr (item\<lparr>thumbnail := Some (get_text f)\<rparr>)))"

text \<open>Lines 139 to 149: the loop over the \<open>gmd:online\<close> elements.\<close>

definition set_link :: "soup \<Rightarrow> 'f item \<Rightarrow> error + 'f item" where
  "set_link resource item =
     (case find_tag ''gmd:name'' resource of
        None \<Rightarrow> Inl AttributeError
      | Some n \<Rightarrow>
          (let name = replace_char CHR '' '' CHR ''_'' (get_text n) in
           if contains ''GeoJSON'' name then
             (case find_tag ''gmd:linkage'' resource of
                None \<Rightarrow> Inl AttributeError
              | Some l \<Rightarrow> Inr (item\<lparr>geojsonLink := Some (get_text l)\<rparr>))
           else if contains ''SHP'' name then
             (case find_tag ''gmd:linkage'' resource of
                None \<Rightarrow> Inl AttributeError
              | Some l \<Rightarrow> Inr (item\<lparr>shapefileLink := Some (get_text l)\<rparr>))
           else Inr item))"

fun set_links :: "soup list \<Rightarrow> 'f item \<Rightarrow> error + 'f item" where
  "set_links [] item = Inr item"
| "set_links (resource # resources_list) item =
     and_then (set_link resource item) (set_links resources_list)"

text \<open>
  Lines 151 to 158: the collection, then \<open>item['title'] = item['collection_name']\<close>
  and \<open>item['notes'] = item['collection_description']\<close>, which raise KeyError when
  \<open>_add_collection\<close> has not set the keys, and the tags.
\<close>

definition set_collection :: "'f item \<Rightarrow> error + 'f item" where
  "set_collection item =
     and_then (add_collection item) (\<lambda>item.
       case collection_name item of
         None \<Rightarrow> Inl (KeyError ''collection_name'')
       | Some cn \<Rightarrow>
           (case collection_description item of
              None \<Rightarrow> Inl (KeyError ''collection_description'')
            | Some cd \<Rightarrow>
                (let item = item\<lparr>title := Some cn, item_notes := Some cd\<rparr> in
                 and_then (get_tags_for_dataset item) (\<lambda>ts. Inr (item\<lparr>tags := Some ts\<rparr>)))))"

text \<open>The lines of \<open>_parse_content\<close> before the collection is added.\<close>

definition parse_body :: "(string \<Rightarrow> 'f option) \<Rightarrow> soup \<Rightarrow> error + 'f item" where
  "parse_body float soup =
     and_then (convert_spatial float (normalize_names soup)) (\<lambda>item.
     and_then (set_identifiers item) (\<lambda>item.
     and_then (set_thumbnail soup item) (\<lambda>item.
       set_links (find_all ''gmd:online'' soup) item)))"

definition parse_content :: "(string \<Rightarrow> 'f option) \<Rightarrow> soup \<Rightarrow> error + 'f item" where
  "parse_content float soup = and_then (parse_body float soup) set_collection"

section \<open>The restart date of the ESA harvester (harvesters/esa.py)\<close>

text \<open>
  A row of the harvest object table: the source it belongs to, the time it was
  gathered and its extras (key and value).
\<close>

record harvest_object =
  harvest_source_id :: string
  gathered :: nat
  extras :: "(string \<times> string) list"

text \<open>
  The part of the source configuration that \<open>gather_stage\<close> reads up to the harvest
  URL; None is a key that the configuration does not have.
\<close>

record source_config =
  start_date :: "string option"
  end_date :: "string option"
  source :: "string option"
  skip_raw :: "bool option"

text \<open>
  Modelled from the spec: \<open>NextGEOSSHarvester._get_object_extra\<close> (lib/nextgeoss\_base.py
  is not among the sources). It reads the extra with the given key of a harvest object
  and returns it; without such an extra it returns the default.
\<close>

definition get_object_extra :: "harvest_object \<Rightarrow> string \<Rightarrow> string \<Rightarrow> string" where
  "get_object_extra obj key dflt =
     (case map_of (extras obj) key of Some v \<Rightarrow> v | None \<Rightarrow> dflt)"

text \<open>
  The value of lines 87 to 89 is a query object of SQLAlchemy, not yet run: \<open>Query\<close>
  with the rows it selects when it is run, which are the objects of the source, most
  recently gathered first, at most one.
\<close>

datatype query = Query "harvest_object list"

definition last_object_query :: "harvest_object list \<Rightarrow> string \<Rightarrow> query" where
  "last_object_query session source_id =
     Query (take 1 (rev (sort_key gathered
       (filter (\<lambda>obj. harvest_source_id obj = source_id) session))))"

text \<open>
  \<open>len(last_object)\<close>: the query class defines no \<open>__len__\<close>, so the builtin raises
  TypeError whatever the query selects. \<open>last_object[0]\<close> runs the query and gives its
  first row, IndexError when there is none.
\<close>

definition query_len :: "query \<Rightarrow> error + nat" where
  "query_len q = Inl TypeError"

definition query_first :: "query \<Rightarrow> error + harvest_object" where
  "query_first q =
     (case q of Query [] \<Rightarrow> Inl IndexError | Query (row # rows) \<Rightarrow> Inr row)"

text \<open>Lines 90 to 95.\<close>

definition restart_date :: "harvest_object list \<Rightarrow> string \<Rightarrow> error + string" where
  "restart_date session source_id =
     (let last_object = last_object_query session source_id in
      and_then (query_len last_object) (\<lambda>n.
        if n \<noteq> 0 then
          and_then (query_first last_object) (\<lambda>last_object.
            Inr (get_object_extra last_object ''restart_date'' ''*''))
        else Inr ''*''))"

text \<open>Lines 98 to 100.\<close>

definition date_range :: "source_config \<Rightarrow> string \<Rightarrow> string" where
  "date_range cfg restart =
     (let start = (case start_date cfg of Some d \<Rightarrow> d | None \<Rightarrow> restart);
          end' = (case end_date cfg of Some d \<Rightarrow> d | None \<Rightarrow> ''NOW'')
      in ''['' @ start @ '' TO '' @ end' @ '']'')"

text \<open>
  \<open>gather_stage\<close> up to the harvest URL that it hands to the crawler. When the source
  is neither \<open>scihub\<close> nor \<open>noa\<close>, \<open>base_url\<close> is never assigned and formatting the
  URL raises UnboundLocalError.
\<close>

definition esa_harvest_url :: "harvest_object list \<Rightarrow> string \<Rightarrow> source_config \<Rightarrow> error + string" where
  "esa_harvest_url session source_id cfg =
     and_then (restart_date session source_id) (\<lambda>restart.
       (let dates = date_range cfg restart;
            base_url = (if source cfg = Some ''scihub'' then Some ''https://scihub.copernicus.eu''
                        else if source cfg = Some ''noa'' then Some ''https://sentinels.space.noa.gr''
                        else None);
            skip = (if skip_raw cfg = Some True then '' AND NOT producttype:RAW'' else [])
        in case base_url of
             None \<Rightarrow> Inl (UnboundLocalError ''base_url'')
           | Some b \<Rightarrow>
               Inr (b @ ''/dhus/search?q=ingestiondate:'' @ dates @ skip
                    @ ''&orderby=ingestiondate asc&start=0&rows=100'')))"

section \<open>The FTP branch of the CMEMS harvester (harvesters/cmems.py)\<close>








section \<open>The PROBA-V normalizer (harvesters/probav.py)\<close>










section \<open>Conditions on an entry\<close>

text \<open>
  The lines of the OLU \<open>_parse_content\<close> before the collection is added run to their
  end on an entry with an identifier when: every bound that \<open>_normalize_names\<close> kept
  is numeric; a \<open>gmd:md_browsegraphic\<close> element, if there is one, has a
  \<open>gmd:filename\<close>; and every \<open>gmd:online\<close> element has a \<open>gmd:name\<close> and, when the
  name mentions GeoJSON or SHP, a \<open>gmd:linkage\<close>.
\<close>

definition numeric :: "(string \<Rightarrow> 'f option) \<Rightarrow> string option \<Rightarrow> bool" where
  "numeric float v = (case v of None \<Rightarrow> False | Some text \<Rightarrow> float text \<noteq> None)"

definition bounds_numeric :: "(string \<Rightarrow> 'f option) \<Rightarrow> 'f item \<Rightarrow> bool" where
  "bounds_numeric float item =
     (case spatial item of
        Some (Bounds b) \<Rightarrow>
          numeric float (gmd_westboundlongitude b) \<and> numeric float (gmd_eastboundlongitude b)
          \<and> numeric float (gmd_southboundlatitude b) \<and> numeric float (gmd_northboundlatitude b)
      | other \<Rightarrow> True)"

definition quick_look_complete :: "soup \<Rightarrow> bool" where
  "quick_look_complete soup =
     (case find_tag ''gmd:md_browsegraphic'' soup of
        None \<Rightarrow> True
      | Some quick_look \<Rightarrow> find_tag ''gmd:filename'' quick_look \<noteq> None)"

definition online_complete :: "soup \<Rightarrow> bool" where
  "online_complete resource =
     (case find_tag ''gmd:name'' resource of
        None \<Rightarrow> False
      | Some n \<Rightarrow>
          (let name = replace_char CHR '' '' CHR ''_'' (get_text n) in
           if contains ''GeoJSON'' name \<or> contains ''SHP'' name
           then find_tag ''gmd:linkage'' resource \<noteq> None else True))"

definition body_completes :: "(string \<Rightarrow> 'f option) \<Rightarrow> soup \<Rightarrow> bool" where
  "body_completes float soup =
     (bounds_numeric float (normalize_names soup :: 'f item)
      \<and> quick_look_complete soup
      \<and> list_all online_complete (find_all ''gmd:online'' soup))"

section \<open>The iteration order of the spatial dictionary\<close>




section \<open>Specification-side definitions and example inputs\<close>

text \<open>
  The merge rule in the words of the specification: the set of \<open>resource_type\<close>
  values of the new candidates; every old resource whose type is not in that set and
  which has a defined order; then all new candidates; sorted ascending by \<open>order\<close>.
\<close>

definition reconcile_spec :: "resource list \<Rightarrow> resource list \<Rightarrow> resource list" where
  "reconcile_spec old_resources new_candidates =
     (let types = set (map resource_type new_candidates) in
      sort_key order
        (filter (\<lambda>r. resource_type r \<notin> types \<and> order r \<noteq> None) old_resources
         @ new_candidates))"

text \<open>A resource of the given type, order and url, for the examples.\<close>

definition example_resource :: "string \<Rightarrow> int \<Rightarrow> string \<Rightarrow> resource" where
  "example_resource t n u =
     \<lparr> name = [], description = [], url = u, format = [], mimetype = [],
       resource_type = Some t, order = Some n \<rparr>"

text \<open>The test of the loop over the old resources.\<close>

definition kept :: "string list \<Rightarrow> resource \<Rightarrow> bool" where
  "kept ts r =
     ((case resource_type r of None \<Rightarrow> True | Some t \<Rightarrow> t \<notin> set ts) \<and> truthy_int (order r))"

text \<open>An item with a shapefile link and a geojson link, and one with all three links.\<close>

definition both_links :: links where
  "both_links = \<lparr> geojsonLink = Some ''g'', shapefileLink = Some ''s'', thumbnail = None \<rparr>"

definition all_links :: links where
  "all_links = \<lparr> geojsonLink = Some ''g'', shapefileLink = Some ''s'', thumbnail = Some ''t'' \<rparr>"

text \<open>
  A small entry: a document with one metadata element holding the file identifier, the
  date stamp \<open>2018-01-01\<close> and the given bound elements.
\<close>

definition leaf :: "string \<Rightarrow> string \<Rightarrow> soup" where
  "leaf n t = Tag n [NavigableString t]"

definition example_entry :: "string \<Rightarrow> soup list \<Rightarrow> soup" where
  "example_entry ident bounds =
     Tag ''[document]''
       [Tag ''gmd:md_metadata''
          ([leaf ''gmd:fileidentifier'' ident, leaf ''gmd:datestamp'' ''2018-01-01''] @ bounds)]"

text \<open>
  Python's \<open>float\<close> on the four literals of the examples; it is None on every other
  text, among them \<open>abc\<close>, which \<open>float\<close> rejects with ValueError.
\<close>

definition example_float :: "string \<Rightarrow> real option" where
  "example_float = map_of [(''10.0'', 10), (''20.0'', 20), (''-5.0'', -5), (''5.0'', 5)]"

text \<open>
  A harvest object table with two objects of source \<open>s1\<close> and one of source \<open>s2\<close>,
  and a configuration of the \<open>scihub\<close> source with no dates.
\<close>

definition example_session :: "harvest_object list" where
  "example_session =
     [\<lparr> harvest_source_id = ''s1'', gathered = 5,
         extras = [(''status'', ''new''), (''restart_date'', ''2018-02-02T00:00:00.000Z'')] \<rparr>,
      \<lparr> harvest_source_id = ''s2'', gathered = 9,
         extras = [(''restart_date'', ''2018-03-03T00:00:00.000Z'')] \<rparr>,
      \<lparr> harvest_source_id = ''s1'', gathered = 1,
         extras = [(''restart_date'', ''2018-01-01T00:00:00.000Z'')] \<rparr>]"

definition config_without_dates :: source_config where
  "config_without_dates =
     \<lparr> start_date = None, end_date = None, source = Some ''scihub'', skip_raw = None \<rparr>"




text \<open>The four bound elements with the given text of the west bound.\<close>

definition four_bounds :: "string \<Rightarrow> soup list" where
  "four_bounds west =
     [leaf ''gmd:westboundlongitude'' west, leaf ''gmd:eastboundlongitude'' ''20.0'',
      leaf ''gmd:southboundlatitude'' ''-5.0'', leaf ''gmd:northboundlatitude'' ''5.0'']"

section \<open>Reconciliation: proofs\<close>

lemma retain_old_filter:
  "retain_old ts olds acc = acc @ filter (kept ts) olds"
  by (induction olds arbitrary: acc) (simp_all add: kept_def Let_def)

lemma resource_types_Inr:
  "list_all (\<lambda>x. resource_type x \<noteq> None) new \<Longrightarrow>
   resource_types new = Inr (map (\<lambda>x. the (resource_type x)) new)"
  by (induction new) auto

lemma kept_iff:
  "list_all (\<lambda>x. resource_type x \<noteq> None) new \<Longrightarrow>
   kept (map (\<lambda>x. the (resource_type x)) new) r
     = (resource_type r \<notin> set (map resource_type new) \<and> truthy_int (order r))"
  by (cases "resource_type r") (force simp: kept_def list_all_iff image_iff)+

lemma kept_order: "kept ts r \<Longrightarrow> order r \<noteq> None"
  by (auto simp: kept_def truthy_int_def split: option.splits)

lemma not_kept_new:
  "list_all (\<lambda>x. resource_type x \<noteq> None) new \<Longrightarrow> r \<in> set new \<Longrightarrow>
   \<not> kept (map (\<lambda>x. the (resource_type x)) new) r"
  by (auto simp: kept_def list_all_iff image_iff split: option.splits)

text \<open>Sorting a prefix first does not change a stable sort of the whole list.\<close>

lemma foldr_insort_insort:
  fixes f :: "'a \<Rightarrow> 'k::linorder"
  shows "sorted (map f T) \<Longrightarrow>
    foldr (insort_key f) (insort_key f x T) S = insort_key f x (foldr (insort_key f) T S)"
  by (induction T) (auto simp: insort_key_left_comm)

lemma sort_key_append_sorted:
  fixes f :: "'a \<Rightarrow> 'k::linorder"
  shows "sort_key f (sort_key f xs @ ys) = sort_key f (xs @ ys)"
proof -
  have *: "\<And>zs. sort_key f (zs @ ys) = foldr (insort_key f) zs (sort_key f ys)"
    by (simp add: sort_key_def)
  have "foldr (insort_key f) (sort_key f xs) S = foldr (insort_key f) xs S" for S
    by (induction xs) (simp_all add: foldr_insort_insort)
  then show ?thesis by (simp add: *)
qed

lemma reconcile_nonempty:
  assumes "old \<noteq> []"
    and "list_all (\<lambda>x. resource_type x \<noteq> None \<and> order x \<noteq> None) new"
  shows "reconcile old new =
     Inr (sort_key (\<lambda>x. the (order x))
           (filter (kept (map (\<lambda>x. the (resource_type x)) new)) old @ new))"
proof -
  from assms(2) have t: "list_all (\<lambda>x. resource_type x \<noteq> None) new"
    and o: "list_all (\<lambda>x. order x \<noteq> None) new"
    by (auto simp: list_all_iff)
  have "list_all (\<lambda>x. order x \<noteq> None)
          (filter (kept (map (\<lambda>x. the (resource_type x)) new)) old @ new)"
    using o by (auto simp: list_all_iff dest: kept_order)
  then show ?thesis
    using assms(1)
    by (simp add: reconcile_def resource_types_Inr [OF t] retain_old_filter sort_by_order_def)
qed

text \<open>
  Claim C1, as amended. When there are old resources and every new candidate carries
  its \<open>resource_type\<close> and \<open>order\<close> (as the three builders make them), the
  reconciliation returns: the old resources whose type is not among the candidates'
  types and whose order is present and not zero (Python's truth test of \<open>order\<close>),
  followed by all candidates, stably sorted ascending by order. With no old resources
  it returns the candidates as they are. The witness is the example of the
  specification: old \<open>[A/1, B/2]\<close> and new \<open>[B/2/u2]\<close> give
  \<open>[A/1, B/2/u2]\<close>.
\<close>

theorem reconcile_merge_rule:
  assumes "old_resources \<noteq> []"
    and "list_all (\<lambda>x. resource_type x \<noteq> None \<and> order x \<noteq> None) new_candidates"
  shows "(\<exists>resources.
     reconcile old_resources new_candidates = Inr resources \<and>
     resources = sort_key (\<lambda>x. the (order x))
       (filter (\<lambda>r. resource_type r \<notin> set (map resource_type new_candidates)
                     \<and> truthy_int (order r)) old_resources
        @ new_candidates) \<and>
     sorted (map (\<lambda>x. the (order x)) resources))
   \<and> reconcile [] new_candidates = Inr new_candidates"
proof -
  have empty: "reconcile [] new_candidates = Inr new_candidates"
    by (simp add: reconcile_def)
  from assms(2) have t: "list_all (\<lambda>x. resource_type x \<noteq> None) new_candidates"
    by (auto simp: list_all_iff)
  have "filter (kept (map (\<lambda>x. the (resource_type x)) new_candidates)) old_resources
      = filter (\<lambda>r. resource_type r \<notin> set (map resource_type new_candidates)
                     \<and> truthy_int (order r)) old_resources"
    by (rule filter_cong) (simp_all add: kept_iff [OF t])
  then show ?thesis
    using reconcile_nonempty [OF assms] empty by simp
qed

theorem reconcile_merge_rule_witness:
  "reconcile [example_resource ''A'' 1 [], example_resource ''B'' 2 []]
             [example_resource ''B'' 2 ''u2'']
   = Inr [example_resource ''A'' 1 [], example_resource ''B'' 2 ''u2'']"
  using reconcile_merge_rule
    [of "[example_resource ''A'' 1 [], example_resource ''B'' 2 []]"
        "[example_resource ''B'' 2 ''u2'']"]
  by (simp add: example_resource_def truthy_int_def)

text \<open>
  Claim C1 as stated fails at two inputs. With no old resources the candidates come
  back as they are, unsorted: shapefile (order 2) before geojson (order 1). And an old
  resource whose order is 0 has a defined order, yet it is dropped.
\<close>

theorem reconcile_merge_rule_counterexample:
  "reconcile [] [example_resource ''plan4all_shapefile'' 2 ''s'',
                 example_resource ''plan4all_geojson'' 1 ''g'']
     \<noteq> Inr (reconcile_spec [] [example_resource ''plan4all_shapefile'' 2 ''s'',
                               example_resource ''plan4all_geojson'' 1 ''g''])
   \<and> reconcile [example_resource ''A'' 0 []] [example_resource ''B'' 2 ''u2'']
     \<noteq> Inr (reconcile_spec [example_resource ''A'' 0 []] [example_resource ''B'' 2 ''u2''])"
  by (simp add: reconcile_def reconcile_spec_def example_resource_def truthy_int_def
      sort_by_order_def)

text \<open>
  Claim C3, as amended. Reconciling the result again with the same candidates changes
  nothing whenever there are old resources, or the candidates are already in ascending
  order; the reconciliation returns in both runs.
\<close>

theorem reconcile_idempotent:
  assumes wf: "list_all (\<lambda>x. resource_type x \<noteq> None \<and> order x \<noteq> None) new_candidates"
    and "old_resources \<noteq> [] \<or> sorted (map (\<lambda>x. the (order x)) new_candidates)"
  shows "\<exists>resources. reconcile old_resources new_candidates = Inr resources
           \<and> reconcile resources new_candidates = Inr resources"
proof -
  let ?k = "\<lambda>x::resource. the (order x)"
  let ?ts = "map (\<lambda>x. the (resource_type x)) new_candidates"
  from wf have t: "list_all (\<lambda>x. resource_type x \<noteq> None) new_candidates"
    by (auto simp: list_all_iff)
  have drop_new: "filter (kept ?ts) new_candidates = []"
    using not_kept_new [OF t] by (simp add: filter_empty_conv)
  show ?thesis
  proof (cases "old_resources = []")
    case True
    with assms(2) have s: "sorted (map ?k new_candidates)" by simp
    have first: "reconcile old_resources new_candidates = Inr new_candidates"
      using True by (simp add: reconcile_def)
    have "reconcile new_candidates new_candidates = Inr new_candidates"
    proof (cases "new_candidates = []")
      case True
      then show ?thesis by (simp add: reconcile_def)
    next
      case False
      then show ?thesis
        using reconcile_nonempty [OF False wf] drop_new s
        by (simp add: sort_key_id_if_sorted)
    qed
    with first show ?thesis by simp
  next
    case False
    let ?F = "filter (kept ?ts) old_resources"
    let ?r = "sort_key ?k (?F @ new_candidates)"
    have first: "reconcile old_resources new_candidates = Inr ?r"
      by (rule reconcile_nonempty [OF False wf])
    have "reconcile ?r new_candidates = Inr ?r"
    proof (cases "?r = []")
      case True
      then have "new_candidates = []"
        by (metis append_is_Nil_conv length_0_conv length_sort)
      with True show ?thesis by (simp add: reconcile_def)
    next
      case False
      have "filter (kept ?ts) ?r = sort_key ?k ?F"
        by (simp add: filter_sort drop_new)
      then show ?thesis
        using reconcile_nonempty [OF False wf]
        by (simp add: sort_key_append_sorted)
    qed
    with first show ?thesis by simp
  qed
qed

theorem reconcile_idempotent_witness:
  "reconcile [example_resource ''A'' 1 [], example_resource ''B'' 2 []]
             [example_resource ''B'' 2 ''u2'']
     = Inr [example_resource ''A'' 1 [], example_resource ''B'' 2 ''u2'']
   \<and> reconcile [example_resource ''A'' 1 [], example_resource ''B'' 2 ''u2'']
             [example_resource ''B'' 2 ''u2'']
     = Inr [example_resource ''A'' 1 [], example_resource ''B'' 2 ''u2'']"
  using reconcile_idempotent
    [of "[example_resource ''B'' 2 ''u2'']"
        "[example_resource ''A'' 1 [], example_resource ''B'' 2 []]"]
  by (simp add: example_resource_def reconcile_def sort_by_order_def truthy_int_def)

text \<open>
  Claim C3 as stated fails for a new dataset whose item has a shapefile link and a
  geojson link: the first run returns shapefile, geojson (unsorted, no old resources);
  the second run, on that result, returns geojson, shapefile.
\<close>

theorem reconcile_idempotent_counterexample:
  "get_resources None both_links
     = Inr [the (make_shapefile_resource both_links), the (make_geojson_resource both_links)]
   \<and> get_resources
        (Some [the (make_shapefile_resource both_links), the (make_geojson_resource both_links)])
        both_links
     = Inr [the (make_geojson_resource both_links), the (make_shapefile_resource both_links)]
   \<and> the (make_geojson_resource both_links) \<noteq> the (make_shapefile_resource both_links)"
  by (simp add: get_resources_def derive_new_resources_def both_links_def
      make_shapefile_resource_def make_geojson_resource_def make_thumbnail_resource_def
      truthy_str_def truthy_int_def reconcile_def sort_by_order_def)

text \<open>
  Claim C10. With no package, or a package without resources, \<open>_get_resources\<close>
  returns the candidates that are present in the order they are built (shapefile with
  order 2, geojson with order 1, thumbnail with order 3) and does not sort them.
\<close>

theorem get_resources_without_old:
  "get_resources None item = Inr (derive_new_resources item)
   \<and> get_resources (Some []) item = Inr (derive_new_resources item)
   \<and> map order (derive_new_resources item) =
       (if truthy_str (shapefileLink item) then [Some 2] else [])
       @ (if truthy_str (geojsonLink item) then [Some 1] else [])
       @ (if truthy_str (thumbnail item) then [Some 3] else [])
   \<and> map resource_type (derive_new_resources item) =
       (if truthy_str (shapefileLink item) then [Some ''plan4all_shapefile''] else [])
       @ (if truthy_str (geojsonLink item) then [Some ''plan4all_geojson''] else [])
       @ (if truthy_str (thumbnail item) then [Some ''thumbnail''] else [])"
  by (simp add: get_resources_def derive_new_resources_def
      make_shapefile_resource_def make_geojson_resource_def make_thumbnail_resource_def
      reconcile_def)

theorem get_resources_without_old_witness:
  "map order (projr (get_resources None all_links)) = [Some 2, Some 1, Some 3]
   \<and> map order (projr (get_resources (Some []) all_links)) = [Some 2, Some 1, Some 3]"
  using get_resources_without_old [of all_links]
  by (simp add: truthy_str_def all_links_def)

section \<open>The OLU normalizer: proofs\<close>

lemma lower_char_not_Z: "lower_char c \<noteq> CHR ''Z''"
proof
  assume "lower_char c = CHR ''Z''"
  then have "(of_char (lower_char c) :: nat) = 90" by simp
  then show False
    by (auto simp: lower_char_def Let_def split: if_splits)
qed

lemma endswith_Z: "endswith t ''Z'' \<Longrightarrow> t \<noteq> [] \<and> last t = CHR ''Z''"
  by (cases t rule: rev_cases) (auto simp: endswith_def)

lemma not_endswith_lower: "\<not> endswith (lower s) ''Z''"
proof
  assume "endswith (lower s) ''Z''"
  then have "lower s \<noteq> []" and "last (lower s) = CHR ''Z''"
    using endswith_Z by blast+
  then have "lower_char (last s) = CHR ''Z''"
    by (simp_all add: lower_def last_map)
  then show False by (simp add: lower_char_not_Z)
qed

lemma map_of_normalized_names:
  "map_of normalized_names n =
     (if n = ''gmd:datestamp'' then Some ''StartTime''
      else if n = ''gmd:westboundlongitude'' then Some ''spatial''
      else if n = ''gmd:eastboundlongitude'' then Some ''spatial''
      else if n = ''gmd:southboundlatitude'' then Some ''spatial''
      else if n = ''gmd:northboundlatitude'' then Some ''spatial''
      else if n = ''gmd:fileidentifier'' then Some ''identifier''
      else if n = ''gmd:title'' then Some ''title''
      else if n = ''gmd:abstract'' then Some ''notes''
      else if n = ''gmd:parentidentifier'' then Some ''parent_identifier''
      else None)"
  by (simp add: normalized_names_def)

lemma step_StartTime:
  "StartTime (normalize_step n it) =
     (if tag_name n = ''gmd:datestamp'' then Some (lower (get_text n)) else StartTime it)"
  by (simp add: normalize_step_def map_of_normalized_names set_key_def)

lemma step_StopTime: "StopTime (normalize_step n it) = StopTime it"
  by (simp add: normalize_step_def map_of_normalized_names set_key_def)

lemma step_identifier:
  "item_identifier (normalize_step n it) =
     (if tag_name n = ''gmd:fileidentifier'' then Some (get_text n) else item_identifier it)"
  by (simp add: normalize_step_def map_of_normalized_names set_key_def)

lemma step_collection:
  "collection_name (normalize_step n it) = collection_name it"
  "collection_description (normalize_step n it) = collection_description it"
  by (simp_all add: normalize_step_def map_of_normalized_names set_key_def)

lemma fold_StartTime:
  "StartTime (fold normalize_step ns it) =
     (case filter (\<lambda>t. tag_name t = ''gmd:datestamp'') ns of
        [] \<Rightarrow> StartTime it
      | d # ds \<Rightarrow> Some (lower (get_text (last (d # ds)))))"
  by (induction ns rule: rev_induct) (simp_all add: step_StartTime split: list.splits)

lemma fold_StopTime: "StopTime (fold normalize_step ns it) = StopTime it"
  by (induction ns arbitrary: it) (simp_all add: step_StopTime)

lemma fold_collection:
  "collection_name (fold normalize_step ns it) = collection_name it"
  "collection_description (fold normalize_step ns it) = collection_description it"
  by (induction ns arbitrary: it) (simp_all add: step_collection)

lemma drop_partial_fields:
  "StartTime (drop_partial_spatial it) = StartTime it"
  "StopTime (drop_partial_spatial it) = StopTime it"
  "item_identifier (drop_partial_spatial it) = item_identifier it"
  "collection_name (drop_partial_spatial it) = collection_name it"
  "collection_description (drop_partial_spatial it) = collection_description it"
  by (simp_all add: drop_partial_spatial_def split: option.splits spatial_value.splits)

lemma synthesize_fields:
  "item_identifier (synthesize_times it) = item_identifier it"
  "collection_name (synthesize_times it) = collection_name it"
  "collection_description (synthesize_times it) = collection_description it"
  "spatial (synthesize_times it) = spatial it"
  by (simp_all add: synthesize_times_def split: option.splits)

text \<open>
  Claim C6. For every entry with a \<open>gmd:datestamp\<close> element, \<open>_normalize_names\<close>
  sets \<open>StartTime\<close> to the (lower-cased) text of the date stamp followed by
  \<open>T00:00:00.000Z\<close> and \<open>StopTime\<close> to the same text followed by
  \<open>T23:59:59.999Z\<close>: no element is mapped to \<open>StopTime\<close>, and the lower-cased text
  never ends with \<open>Z\<close>, so both suffixes are always added. The last date stamp of
  the document is the one that counts.
\<close>

theorem normalize_names_whole_day:
  assumes "find_all ''gmd:datestamp'' soup \<noteq> []"
  shows "StartTime (normalize_names soup :: 'f item) =
           Some (lower (get_text (last (find_all ''gmd:datestamp'' soup))) @ ''T00:00:00.000Z'')
       \<and> StopTime (normalize_names soup :: 'f item) =
           Some (lower (get_text (last (find_all ''gmd:datestamp'' soup))) @ ''T23:59:59.999Z'')"
proof -
  let ?d = "lower (get_text (last (find_all ''gmd:datestamp'' soup)))"
  let ?it = "drop_partial_spatial (fold normalize_step (findChildren soup)
      (empty_item\<lparr>spatial := Some (Bounds \<lparr> gmd_westboundlongitude = None,
         gmd_eastboundlongitude = None, gmd_southboundlatitude = None,
         gmd_northboundlatitude = None \<rparr>)\<rparr>)) :: 'f item"
  have start: "StartTime ?it = Some ?d"
    using assms by (simp add: drop_partial_fields fold_StartTime find_all_def split: list.splits)
  have stop: "StopTime ?it = None"
    by (simp add: drop_partial_fields fold_StopTime empty_item_def)
  have "normalize_names soup = synthesize_times ?it"
    by (simp add: normalize_names_def Let_def)
  then show ?thesis
    using start stop by (simp add: synthesize_times_def not_endswith_lower)
qed

theorem normalize_names_whole_day_witness:
  "StartTime (normalize_names (example_entry ''OLU.1'' []) :: real item) = Some ''2018-01-01T00:00:00.000Z''
   \<and> StopTime (normalize_names (example_entry ''OLU.1'' []) :: real item) = Some ''2018-01-01T23:59:59.999Z''"
proof -
  have f: "find_all ''gmd:datestamp'' (example_entry ''OLU.1'' []) = [leaf ''gmd:datestamp'' ''2018-01-01'']"
    by (simp add: find_all_def example_entry_def leaf_def)
  have l: "lower ''2018-01-01'' = ''2018-01-01''"
    by (simp add: lower_def lower_char_def)
  show ?thesis
    using normalize_names_whole_day [of "example_entry ''OLU.1'' []", where 'f = real]
    by (simp add: f l leaf_def)
qed

lemma normalize_names_no_collection:
  "collection_name (normalize_names soup :: 'f item) = None
   \<and> collection_description (normalize_names soup :: 'f item) = None"
  by (simp add: normalize_names_def Let_def synthesize_fields drop_partial_fields
      fold_collection empty_item_def)

lemma convert_spatial_fields:
  "convert_spatial float it = Inr it' \<Longrightarrow>
     item_identifier it' = item_identifier it \<and> collection_name it' = collection_name it
     \<and> collection_description it' = collection_description it"
  by (auto simp: convert_spatial_def and_then_def Let_def
      split: option.splits spatial_value.splits sum.splits)

lemma set_identifiers_fields:
  "set_identifiers it = Inr it' \<Longrightarrow>
     (\<exists>ident. item_identifier it = Some ident
        \<and> item_identifier it' = Some (replace_char CHR ''.'' CHR ''_'' ident))
     \<and> collection_name it' = collection_name it
     \<and> collection_description it' = collection_description it"
  by (auto simp: set_identifiers_def Let_def split: option.splits)

lemma set_thumbnail_fields:
  "set_thumbnail soup it = Inr it' \<Longrightarrow>
     item_identifier it' = item_identifier it \<and> collection_name it' = collection_name it
     \<and> collection_description it' = collection_description it"
  by (auto simp: set_thumbnail_def split: option.splits)

lemma set_link_fields:
  "set_link r it = Inr it' \<Longrightarrow>
     item_identifier it' = item_identifier it \<and> collection_name it' = collection_name it
     \<and> collection_description it' = collection_description it"
  by (auto simp: set_link_def Let_def split: option.splits if_splits)

lemma set_links_fields:
  "set_links rs it = Inr it' \<Longrightarrow>
     item_identifier it' = item_identifier it \<and> collection_name it' = collection_name it
     \<and> collection_description it' = collection_description it"
proof (induction rs arbitrary: it)
  case Nil
  then show ?case by simp
next
  case (Cons r rs)
  then obtain it1 where 1: "set_link r it = Inr it1" and 2: "set_links rs it1 = Inr it'"
    by (auto simp: and_then_def split: sum.splits)
  from Cons.IH [OF 2] set_link_fields [OF 1] show ?case by simp
qed

lemma parse_body_Inr:
  fixes float :: "string \<Rightarrow> 'f option"
  assumes "parse_body float soup = Inr it"
  shows "\<exists>ident. item_identifier (normalize_names soup :: 'f item) = Some ident
           \<and> item_identifier it = Some (replace_char CHR ''.'' CHR ''_'' ident)
           \<and> collection_name it = None \<and> collection_description it = None"
proof -
  from assms obtain i1 i2 i3 where
    1: "convert_spatial float (normalize_names soup) = Inr i1" and
    2: "set_identifiers i1 = Inr i2" and
    3: "set_thumbnail soup i2 = Inr i3" and
    4: "set_links (find_all ''gmd:online'' soup) i3 = Inr it"
    by (auto simp: parse_body_def and_then_def split: sum.splits)
  show ?thesis
    using convert_spatial_fields [OF 1] set_identifiers_fields [OF 2]
      set_thumbnail_fields [OF 3] set_links_fields [OF 4] normalize_names_no_collection [of soup, where 'f = 'f]
    by auto
qed

lemma lower_char_dot: "lower_char CHR ''.'' = CHR ''.''" "lower_char CHR ''_'' = CHR ''_''"
  by (simp_all add: lower_char_def)

lemma lower_replace_char:
  "x \<in> {CHR ''o'', CHR ''l'', CHR ''u''} \<Longrightarrow>
   (lower_char (if c = CHR ''.'' then CHR ''_'' else c) = x) = (lower_char c = x)"
  by (auto simp: lower_char_dot)

lemma startswith_olu_replace:
  "startswith (lower (replace_char CHR ''.'' CHR ''_'' s)) ''olu'' = startswith (lower s) ''olu''"
proof (cases s)
  case Nil
  then show ?thesis by (simp add: startswith_def lower_def replace_char_def)
next
  case (Cons a s1)
  show ?thesis
  proof (cases s1)
    case Nil
    with Cons show ?thesis by (simp add: startswith_def lower_def replace_char_def)
  next
    case (Cons b s2)
    note c2 = this
    show ?thesis
    proof (cases s2)
      case Nil
      with c2 \<open>s = a # s1\<close> show ?thesis by (simp add: startswith_def lower_def replace_char_def)
    next
      case (Cons c s3)
      with c2 \<open>s = a # s1\<close> show ?thesis
        using lower_replace_char [of "CHR ''o''" a] lower_replace_char [of "CHR ''l''" b]
          lower_replace_char [of "CHR ''u''" c]
        by (simp add: startswith_def lower_def replace_char_def)
    qed
  qed
qed

text \<open>
  Claim C7. When the four bounds are numeric, the conversion builds one ring of five
  points, north-west, north-east, south-east, south-west and north-west again, and
  stores the polygon under \<open>spatial\<close>. The witness is the example of the
  specification: west 10, east 20, south -5, north 5.
\<close>

theorem to_polygon_ring:
  fixes float :: "string \<Rightarrow> 'f option"
  assumes "float w = Some west" and "float e = Some east"
    and "float s = Some south" and "float n = Some north"
  shows "to_polygon float
           \<lparr> gmd_westboundlongitude = Some w, gmd_eastboundlongitude = Some e,
             gmd_southboundlatitude = Some s, gmd_northboundlatitude = Some n \<rparr>
         = Inr (Polygon [[(west, north), (east, north), (east, south), (west, south),
                          (west, north)]])
       \<and> convert_spatial float
           (item\<lparr>spatial := Some (Bounds
              \<lparr> gmd_westboundlongitude = Some w, gmd_eastboundlongitude = Some e,
                gmd_southboundlatitude = Some s, gmd_northboundlatitude = Some n \<rparr>)\<rparr>)
         = Inr (item\<lparr>spatial := Some (Polygon [[(west, north), (east, north), (east, south),
                                                  (west, south), (west, north)]])\<rparr>)"
  using assms
  by (simp add: to_polygon_def convert_spatial_def float_of_def and_then_def Let_def)

theorem to_polygon_ring_witness:
  "to_polygon example_float
     \<lparr> gmd_westboundlongitude = Some ''10.0'', gmd_eastboundlongitude = Some ''20.0'',
       gmd_southboundlatitude = Some ''-5.0'', gmd_northboundlatitude = Some ''5.0'' \<rparr>
   = Inr (Polygon [[(10, 5), (20, 5), (20, -5), (10, -5), (10, 5)]])"
proof -
  have "example_float ''10.0'' = Some 10" "example_float ''20.0'' = Some 20"
    "example_float ''-5.0'' = Some (-5)" "example_float ''5.0'' = Some 5"
    by (simp_all add: example_float_def)
  from to_polygon_ring [OF this, of empty_item] show ?thesis by simp
qed

text \<open>
  Claim C5. A missing bound drops the spatial group in \<open>_normalize_names\<close>, as the
  claim says. A bound that is present and not numeric does not: \<open>float\<close> raises
  ValueError inside \<open>_parse_content\<close>, which nothing catches, so the entry yields no
  item at all, where the claim (and the comment "Remove it if it's invalid" above the
  conversion) promises an item without the spatial field. The theorem evaluates the
  code at an entry whose west bound is the text \<open>abc\<close>.
\<close>

theorem parse_content_non_numeric_bound:
  "parse_content example_float
     (example_entry ''OLU.1''
        [leaf ''gmd:westboundlongitude'' ''abc'', leaf ''gmd:eastboundlongitude'' ''20.0'',
         leaf ''gmd:southboundlatitude'' ''-5.0'', leaf ''gmd:northboundlatitude'' ''5.0''])
   = Inl ValueError"
  by code_simp

text \<open>The same entry without its south bound, and with four numeric bounds.\<close>

lemma parse_content_partial_bbox:
  "(case parse_content example_float
     (example_entry ''OLU.1''
        [leaf ''gmd:westboundlongitude'' ''10.0'', leaf ''gmd:eastboundlongitude'' ''20.0'',
         leaf ''gmd:northboundlatitude'' ''5.0'']) of Inl e \<Rightarrow> False | Inr item \<Rightarrow> spatial item = None)"
  by code_simp

lemma parse_content_full_bbox:
  "(case parse_content example_float
     (example_entry ''OLU.1''
        [leaf ''gmd:westboundlongitude'' ''10.0'', leaf ''gmd:eastboundlongitude'' ''20.0'',
         leaf ''gmd:southboundlatitude'' ''-5.0'', leaf ''gmd:northboundlatitude'' ''5.0'']) of Inl e \<Rightarrow> False 
      | Inr item \<Rightarrow> spatial item = Some (Polygon [[(10, 5), (20, 5), (20, -5), (10, -5), (10, 5)]]))"
  by code_simp

text \<open>
  The half of claim C5 that the code keeps, for every entry: when one of the four
  bound elements is missing, \<open>_normalize_names\<close> returns no \<open>spatial\<close> key.
\<close>

lemma step_spatial:
  "spatial it = Some (Bounds b) \<Longrightarrow>
   \<exists>b'. spatial (normalize_step n it) = Some (Bounds b')
     \<and> (tag_name n \<noteq> ''gmd:westboundlongitude'' \<longrightarrow> gmd_westboundlongitude b' = gmd_westboundlongitude b)
     \<and> (tag_name n \<noteq> ''gmd:eastboundlongitude'' \<longrightarrow> gmd_eastboundlongitude b' = gmd_eastboundlongitude b)
     \<and> (tag_name n \<noteq> ''gmd:southboundlatitude'' \<longrightarrow> gmd_southboundlatitude b' = gmd_southboundlatitude b)
     \<and> (tag_name n \<noteq> ''gmd:northboundlatitude'' \<longrightarrow> gmd_northboundlatitude b' = gmd_northboundlatitude b)"
  by (simp add: normalize_step_def map_of_normalized_names set_key_def set_bound_def)

lemma fold_spatial:
  "spatial it = Some (Bounds b) \<Longrightarrow>
   \<exists>b'. spatial (fold normalize_step ns it) = Some (Bounds b')
     \<and> ((\<forall>t \<in> set ns. tag_name t \<noteq> ''gmd:westboundlongitude'') \<longrightarrow> gmd_westboundlongitude b' = gmd_westboundlongitude b)
     \<and> ((\<forall>t \<in> set ns. tag_name t \<noteq> ''gmd:eastboundlongitude'') \<longrightarrow> gmd_eastboundlongitude b' = gmd_eastboundlongitude b)
     \<and> ((\<forall>t \<in> set ns. tag_name t \<noteq> ''gmd:southboundlatitude'') \<longrightarrow> gmd_southboundlatitude b' = gmd_southboundlatitude b)
     \<and> ((\<forall>t \<in> set ns. tag_name t \<noteq> ''gmd:northboundlatitude'') \<longrightarrow> gmd_northboundlatitude b' = gmd_northboundlatitude b)"
proof (induction ns arbitrary: it b)
  case Nil
  then show ?case by simp
next
  case (Cons n ns)
  from step_spatial [OF Cons.prems, of n] obtain b1 where
    1: "spatial (normalize_step n it) = Some (Bounds b1)"
    and w: "tag_name n \<noteq> ''gmd:westboundlongitude'' \<longrightarrow> gmd_westboundlongitude b1 = gmd_westboundlongitude b"
    and e: "tag_name n \<noteq> ''gmd:eastboundlongitude'' \<longrightarrow> gmd_eastboundlongitude b1 = gmd_eastboundlongitude b"
    and s: "tag_name n \<noteq> ''gmd:southboundlatitude'' \<longrightarrow> gmd_southboundlatitude b1 = gmd_southboundlatitude b"
    and n: "tag_name n \<noteq> ''gmd:northboundlatitude'' \<longrightarrow> gmd_northboundlatitude b1 = gmd_northboundlatitude b"
    by blast
  from Cons.IH [OF 1] obtain b' where
    2: "spatial (fold normalize_step ns (normalize_step n it)) = Some (Bounds b')"
    and w': "(\<forall>t \<in> set ns. tag_name t \<noteq> ''gmd:westboundlongitude'') \<longrightarrow> gmd_westboundlongitude b' = gmd_westboundlongitude b1"
    and e': "(\<forall>t \<in> set ns. tag_name t \<noteq> ''gmd:eastboundlongitude'') \<longrightarrow> gmd_eastboundlongitude b' = gmd_eastboundlongitude b1"
    and s': "(\<forall>t \<in> set ns. tag_name t \<noteq> ''gmd:southboundlatitude'') \<longrightarrow> gmd_southboundlatitude b' = gmd_southboundlatitude b1"
    and n': "(\<forall>t \<in> set ns. tag_name t \<noteq> ''gmd:northboundlatitude'') \<longrightarrow> gmd_northboundlatitude b' = gmd_northboundlatitude b1"
    by blast
  show ?case
    using 2 w e s n w' e' s' n' by simp
qed

lemma normalize_names_missing_bound:
  assumes "find_all ''gmd:westboundlongitude'' soup = []
         \<or> find_all ''gmd:eastboundlongitude'' soup = []
         \<or> find_all ''gmd:southboundlatitude'' soup = []
         \<or> find_all ''gmd:northboundlatitude'' soup = []"
  shows "spatial (normalize_names soup :: 'f item) = None"
proof -
  let ?b0 = "\<lparr> gmd_westboundlongitude = None, gmd_eastboundlongitude = None,
               gmd_southboundlatitude = None, gmd_northboundlatitude = None \<rparr>"
  let ?it0 = "empty_item\<lparr>spatial := Some (Bounds ?b0)\<rparr> :: 'f item"
  have "spatial ?it0 = Some (Bounds ?b0)" by simp
  from fold_spatial [OF this, of "findChildren soup"] obtain b' where
    1: "spatial (fold normalize_step (findChildren soup) ?it0) = Some (Bounds b')"
    and w: "(\<forall>t \<in> set (findChildren soup). tag_name t \<noteq> ''gmd:westboundlongitude'') \<longrightarrow> gmd_westboundlongitude b' = None"
    and e: "(\<forall>t \<in> set (findChildren soup). tag_name t \<noteq> ''gmd:eastboundlongitude'') \<longrightarrow> gmd_eastboundlongitude b' = None"
    and s: "(\<forall>t \<in> set (findChildren soup). tag_name t \<noteq> ''gmd:southboundlatitude'') \<longrightarrow> gmd_southboundlatitude b' = None"
    and n: "(\<forall>t \<in> set (findChildren soup). tag_name t \<noteq> ''gmd:northboundlatitude'') \<longrightarrow> gmd_northboundlatitude b' = None"
    by auto
  from assms w e s n have "gmd_westboundlongitude b' = None \<or> gmd_eastboundlongitude b' = None
      \<or> gmd_southboundlatitude b' = None \<or> gmd_northboundlatitude b' = None"
    by (auto simp: find_all_def filter_empty_conv)
  with 1 have "spatial (drop_partial_spatial (fold normalize_step (findChildren soup) ?it0)) = None"
    by (auto simp: drop_partial_spatial_def)
  then show ?thesis
    by (simp add: normalize_names_def Let_def synthesize_fields)
qed

section \<open>The OLU normalizer without an \<open>olu\<close> identifier: proofs\<close>

lemma to_polygon_numeric:
  fixes float :: "string \<Rightarrow> 'f option"
  assumes "numeric float (gmd_westboundlongitude b)" and "numeric float (gmd_eastboundlongitude b)"
    and "numeric float (gmd_southboundlatitude b)" and "numeric float (gmd_northboundlatitude b)"
  shows "\<exists>g. to_polygon float b = Inr g"
  using assms
  by (auto simp: numeric_def to_polygon_def float_of_def and_then_def Let_def
      split: option.splits)

lemma convert_spatial_completes:
  fixes float :: "string \<Rightarrow> 'f option"
  assumes "bounds_numeric float it"
  shows "\<exists>it'. convert_spatial float it = Inr it'"
proof (cases "spatial it")
  case None
  then show ?thesis by (simp add: convert_spatial_def)
next
  case (Some v)
  show ?thesis
  proof (cases v)
    case (Bounds b)
    with Some assms obtain g where "to_polygon float b = Inr g"
      using to_polygon_numeric [of float b] by (auto simp: bounds_numeric_def)
    with Some Bounds show ?thesis by (simp add: convert_spatial_def and_then_def)
  next
    case (Polygon p)
    with Some show ?thesis by (simp add: convert_spatial_def)
  qed
qed

lemma set_identifiers_completes:
  "item_identifier it = Some ident \<Longrightarrow> \<exists>it'. set_identifiers it = Inr it'"
  by (simp add: set_identifiers_def Let_def split: option.splits)

lemma set_thumbnail_completes:
  "quick_look_complete soup \<Longrightarrow> \<exists>it'. set_thumbnail soup it = Inr it'"
  by (auto simp: quick_look_complete_def set_thumbnail_def split: option.splits)

lemma set_link_completes:
  "online_complete r \<Longrightarrow> \<exists>it'. set_link r it = Inr it'"
  by (auto simp: online_complete_def set_link_def Let_def split: option.splits if_splits)

lemma set_links_completes:
  "list_all online_complete rs \<Longrightarrow> \<exists>it'. set_links rs it = Inr it'"
proof (induction rs arbitrary: it)
  case Nil
  then show ?case by simp
next
  case (Cons r rs)
  then obtain it1 where "set_link r it = Inr it1"
    using set_link_completes [of r it] by auto
  moreover from Cons obtain it2 where "set_links rs it1 = Inr it2" by fastforce
  ultimately show ?case by (simp add: and_then_def)
qed

lemma parse_body_completes:
  fixes float :: "string \<Rightarrow> 'f option"
  assumes ident: "item_identifier (normalize_names soup :: 'f item) = Some ident"
    and ok: "body_completes float soup"
  shows "\<exists>it. parse_body float soup = Inr it"
proof -
  from ok obtain i1 where 1: "convert_spatial float (normalize_names soup) = Inr i1"
    using convert_spatial_completes [of float "normalize_names soup"]
    by (auto simp: body_completes_def)
  from convert_spatial_fields [OF 1] ident have "item_identifier i1 = Some ident" by simp
  then obtain i2 where 2: "set_identifiers i1 = Inr i2"
    using set_identifiers_completes by blast
  from ok obtain i3 where 3: "set_thumbnail soup i2 = Inr i3"
    using set_thumbnail_completes [of soup i2] by (auto simp: body_completes_def)
  from ok obtain i4 where 4: "set_links (find_all ''gmd:online'' soup) i3 = Inr i4"
    using set_links_completes [of "find_all ''gmd:online'' soup" i3]
    by (auto simp: body_completes_def)
  from 1 2 3 4 show ?thesis by (simp add: parse_body_def and_then_def)
qed

lemma not_olu_key_error:
  fixes float :: "string \<Rightarrow> 'f option"
  assumes body: "parse_body float soup = Inr it"
    and ident: "item_identifier (normalize_names soup :: 'f item) = Some ident"
    and no: "\<not> startswith (lower ident) ''olu''"
  shows "add_collection it = Inr it \<and> collection_name it = None
        \<and> collection_description it = None
        \<and> set_collection it = Inl (KeyError ''collection_name'')"
proof -
  from parse_body_Inr [OF body] ident
  have i: "item_identifier it = Some (replace_char CHR ''.'' CHR ''_'' ident)"
    and c: "collection_name it = None" "collection_description it = None"
    by auto
  from i no have a: "add_collection it = Inr it"
    by (simp add: add_collection_def startswith_olu_replace)
  with c show ?thesis by (simp add: set_collection_def and_then_def)
qed

text \<open>
  Claim C9, as amended. Let the identifier that \<open>_normalize_names\<close> extracts not start
  with \<open>olu\<close> (in any letter case). Then \<open>_parse_content\<close> returns no item. When the
  lines before the collection run to their end (the bounds that were kept are numeric,
  a quick look has its file name, every online element has its name and linkage),
  \<open>_add_collection\<close> returns the item unchanged, with no \<open>collection_name\<close> and no
  \<open>collection_description\<close>, and \<open>_parse_content\<close> raises KeyError at
  \<open>item['title'] = item['collection_name']\<close>. An item is returned only for an
  identifier that starts with \<open>olu\<close>.
\<close>

theorem parse_content_requires_olu:
  fixes float :: "string \<Rightarrow> 'f option"
  shows "(\<forall>ident. item_identifier (normalize_names soup :: 'f item) = Some ident
        \<and> \<not> startswith (lower ident) ''olu'' \<longrightarrow>
      (\<forall>item. parse_content float soup \<noteq> Inr item)
      \<and> (body_completes float soup \<longrightarrow>
           (\<exists>item. parse_body float soup = Inr item
              \<and> add_collection item = Inr item
              \<and> collection_name item = None \<and> collection_description item = None)
           \<and> parse_content float soup = Inl (KeyError ''collection_name'')))
   \<and> (\<forall>item. parse_content float soup = Inr item \<longrightarrow>
        (\<exists>ident. item_identifier (normalize_names soup :: 'f item) = Some ident
           \<and> startswith (lower ident) ''olu''))"
proof -
  have no_item: "parse_content float soup \<noteq> Inr item"
    if "item_identifier (normalize_names soup :: 'f item) = Some ident"
      and "\<not> startswith (lower ident) ''olu''" for ident item
  proof
    assume p: "parse_content float soup = Inr item"
    then obtain it where body: "parse_body float soup = Inr it"
      and sc: "set_collection it = Inr item"
      by (auto simp: parse_content_def and_then_def split: sum.splits)
    from not_olu_key_error [OF body that] sc show False by simp
  qed
  have key_error: "(\<exists>item. parse_body float soup = Inr item
              \<and> add_collection item = Inr item
              \<and> collection_name item = None \<and> collection_description item = None)
           \<and> parse_content float soup = Inl (KeyError ''collection_name'')"
    if ident: "item_identifier (normalize_names soup :: 'f item) = Some ident"
      and no: "\<not> startswith (lower ident) ''olu''"
      and ok: "body_completes float soup" for ident
  proof -
    from parse_body_completes [OF ident ok] obtain it where
      body: "parse_body float soup = Inr it" by blast
    from not_olu_key_error [OF body ident no] body show ?thesis
      by (auto simp: parse_content_def and_then_def)
  qed
  have only_olu: "\<exists>ident. item_identifier (normalize_names soup :: 'f item) = Some ident
           \<and> startswith (lower ident) ''olu''"
    if p: "parse_content float soup = Inr item" for item
  proof -
    from p obtain it where body: "parse_body float soup = Inr it"
      by (auto simp: parse_content_def and_then_def split: sum.splits)
    from parse_body_Inr [OF body] obtain ident where
      ident: "item_identifier (normalize_names soup :: 'f item) = Some ident" by auto
    with no_item [OF ident _, of item] p show ?thesis by auto
  qed
  from no_item key_error only_olu show ?thesis by blast
qed

theorem parse_content_requires_olu_witness:
  "parse_content example_float (example_entry ''abc.1'' []) = Inl (KeyError ''collection_name'')
   \<and> (case parse_content example_float (example_entry ''OLU.1'' []) of
         Inl e \<Rightarrow> False | Inr item \<Rightarrow> title item = Some ''Open Land Use Map'')"
proof -
  have h1: "item_identifier (normalize_names (example_entry ''abc.1'' []) :: real item) = Some ''abc.1''"
    by code_simp
  have h2: "\<not> startswith (lower ''abc.1'') ''olu''"
    by code_simp
  have h3: "body_completes example_float (example_entry ''abc.1'' [])"
    by code_simp
  from parse_content_requires_olu [of "example_entry ''abc.1'' []" example_float] h1 h2 h3
  have a: "parse_content example_float (example_entry ''abc.1'' [])
      = Inl (KeyError ''collection_name'')"
    by blast
  have b: "case parse_content example_float (example_entry ''OLU.1'' []) of
         Inl e \<Rightarrow> False | Inr item \<Rightarrow> title item = Some ''Open Land Use Map''"
    by code_simp
  from a b show ?thesis by simp
qed

text \<open>
  Claim C9 as stated fails at an entry whose identifier is \<open>abc.1\<close> and whose west bound
  is the text \<open>abc\<close>: the exception is the ValueError of \<open>float\<close>, raised before
  \<open>_add_collection\<close> is reached, and not a KeyError.
\<close>

theorem parse_content_requires_olu_counterexample:
  "item_identifier (normalize_names (example_entry ''abc.1'' (four_bounds ''abc'')) :: real item)
     = Some ''abc.1''
   \<and> \<not> startswith (lower ''abc.1'') ''olu''
   \<and> parse_content example_float (example_entry ''abc.1'' (four_bounds ''abc'')) = Inl ValueError
   \<and> parse_content example_float (example_entry ''abc.1'' (four_bounds ''abc''))
       \<noteq> Inl (KeyError ''collection_name'')"
  by code_simp

section \<open>The ESA restart date: proofs\<close>

lemma restart_date_raises: "restart_date session source_id = Inl TypeError"
  by (simp add: restart_date_def query_len_def and_then_def)

lemma esa_harvest_url_raises: "esa_harvest_url session source_id cfg = Inl TypeError"
  by (simp add: esa_harvest_url_def restart_date_raises and_then_def)

text \<open>
  Claim C2. The source reads the restart date as the claim says, but it tests
  \<open>len(last_object)\<close> on the query object, which has no length: \<open>gather_stage\<close> raises
  TypeError at line 90, before any restart date is read and whatever the table and the
  configuration hold. The theorem evaluates the code on a table with two objects of the
  source and a configuration without dates.
\<close>

theorem esa_gather_stage_type_error:
  "esa_harvest_url example_session ''s1'' config_without_dates = Inl TypeError
   \<and> last_object_query example_session ''s1''
       = Query [\<lparr> harvest_source_id = ''s1'', gathered = 5,
                  extras = [(''status'', ''new''),
                            (''restart_date'', ''2018-02-02T00:00:00.000Z'')] \<rparr>]"
  by (simp add: esa_harvest_url_raises last_object_query_def example_session_def)

section \<open>The CMEMS FTP branch: proofs\<close>




section \<open>The PROBA-V normalizer: proofs\<close>









end
